theory Spec2Isabelle
  imports Main "HOL-Library.Word"
begin

section \<open>Errors raised by the operator specification\<close>

text \<open>
  \<^verbatim>\<open>DALI_ENFORCE\<close> and \<^verbatim>\<open>DALI_FAIL\<close> throw an exception that carries a message. Every
  throwing site of the embedded code is one constructor below; the payload is what the
  message of that site prints (argument name, batch size, shape, index).
  The type parameter \<open>'v\<close> is the universe of argument values.
\<close>

datatype 'v error =
    NoSchema string
      \<comment> \<open>GetSchema: "No schema found for operator <schema name>"\<close>
  | MissingContext string
      \<comment> \<open>GetArgumentImpl: "Tensor value is unexpected for argument <name>"\<close>
  | NonUniform string
      \<comment> \<open>CheckScalarArgumentShape: "Arguments should be passed as uniform TensorLists.
          Argument <name> is not uniform ..."\<close>
  | ShapeMismatch string 'v "int list list"
      \<comment> \<open>CheckScalarArgumentShape: "Unexpected shape of argument <name>. Expected batch of
          <batch_size> scalars or a batch of tensors containing one element per sample.
          Got: <shape>"\<close>
  | TypeMismatch string
      \<comment> \<open>GetArgumentImpl: "Unexpected type of argument <name> ..."; also a typed read of a
          stored value of another type\<close>
  | ConflictingSpecification string
      \<comment> \<open>AddArg: "AddArg failed. Argument with name <name> already exists."\<close>
  | InvalidIndex int int
      \<comment> \<open>DALI_ENFORCE_VALID_INDEX(idx, upper)\<close>
  | NotArgumentInput int
      \<comment> \<open>ArgumentInputName: "Index <idx> does not correspond to valid argument input."\<close>
  | UnknownArgument string
      \<comment> \<open>the schema declares no argument of that name\<close>
  | NoDefault string
      \<comment> \<open>the schema declares the argument, but no default value\<close>
  | ArgumentInputNotFound string
      \<comment> \<open>the workspace binds no tensor to that argument name\<close>
  | SampleOutOfRange int
      \<comment> \<open>no sample, or no element, at that index of a tensor list\<close>
  | CorruptIndex string
      \<comment> \<open>an index map entry that points outside its vector\<close>
  | NoSuchArgumentInput string
      \<comment> \<open>ArgumentInputIdx: "No such argument input: <name>"\<close>
  | RegularInputAfterArgumentInput string
      \<comment> \<open>a regular input added after an argument input\<close>

section \<open>Data model\<close>

subsection \<open>Collaborators of OpSpec that are only declared in the sources\<close>

text \<open>
  \<^verbatim>\<open>op_spec.h\<close> is a template header: \<^verbatim>\<open>T\<close> is the type the caller asks for and
  \<^verbatim>\<open>S = argument_storage_t<T>\<close> the type the value is stored as. A C++ type is a value of
  the type parameter \<open>'t\<close>; the trait and the conversions, declared in headers that are
  not part of the sources, are taken as parameters.
\<close>

record ('t, 'v) TypeTable =
  int_type :: 't
    \<comment> \<open>the C++ type \<^verbatim>\<open>int\<close>, used by \<^verbatim>\<open>GetArgument<int>("max_batch_size")\<close>\<close>
  argument_storage_t :: "'t \<Rightarrow> 't"
  static_cast :: "'t \<Rightarrow> 'v \<Rightarrow> 'v"
    \<comment> \<open>\<^verbatim>\<open>static_cast<T>(v)\<close>\<close>

text \<open>
  Modelled from the spec: class \<^verbatim>\<open>Argument\<close> (argument.h is not part of the sources).
  "Holds a type-tagged value"; "an Argument's stored representation type is fixed at
  creation; conversions to requested types happen at read time and fail if incompatible."
\<close>

record ('t, 'v) Argument =
  arg_name :: string
  arg_type :: 't
  arg_value :: 'v

text \<open>
  Modelled from the spec: \<^verbatim>\<open>Argument::Store<S>(name, val)\<close> (argument.h is not part of the
  sources). It creates the argument; "an Argument's stored representation type is fixed
  at creation".
\<close>

definition Store :: "'t \<Rightarrow> string \<Rightarrow> 'v \<Rightarrow> ('t, 'v) Argument" where
  "Store S nm v = \<lparr>arg_name = nm, arg_type = S, arg_value = v\<rparr>"

text \<open>
  Modelled from the spec: \<^verbatim>\<open>Argument::IsType<S>()\<close> (argument.h is not part of the sources):
  whether \<open>S\<close> is the stored representation type.
\<close>

definition IsType :: "'t \<Rightarrow> ('t, 'v) Argument \<Rightarrow> bool" where
  "IsType S arg = (arg_type arg = S)"

text \<open>
  Modelled from the spec: \<^verbatim>\<open>Argument::Get<S>()\<close> (argument.h is not part of the sources).
  "Conversions to requested types happen at read time and fail if incompatible": the
  value is read at the type it is stored as, and the read fails at any other type.
\<close>

definition Get :: "'t \<Rightarrow> ('t, 'v) Argument \<Rightarrow> 'v error + 'v" where
  "Get S arg = (if IsType S arg then Inr (arg_value arg) else Inl (TypeMismatch (arg_name arg)))"

text \<open>
  Modelled from the spec: class \<^verbatim>\<open>OpSchema\<close> (op_schema.h is not part of the sources).
  "Holds: set of declared argument names -> {semantic type, optional default value,
  required flag}; deprecated-alias mapping (old name -> new name, possibly removed)".
  A default value is a typed value instance: its storage type and the value.
  In the alias mapping \<open>Some None\<close> is an alias that says removed and
  \<open>Some (Some new)\<close> a renaming.
\<close>

record ('t, 'v) ArgumentDef =
  def_type :: 't
  def_default :: "('t \<times> 'v) option"
  def_required :: bool

record ('t, 'v) OpSchema =
  op_name :: string
  declared_arguments :: "string \<rightharpoonup> ('t, 'v) ArgumentDef"
  deprecated_arguments :: "string \<rightharpoonup> string option"

text \<open>
  Modelled from the spec: \<^verbatim>\<open>OpSchema::HasArgument(name, true)\<close> (op_schema.h is not part of
  the sources): whether the schema declares an argument of that name.
\<close>

definition Schema_HasArgument :: "('t, 'v) OpSchema \<Rightarrow> string \<Rightarrow> bool" where
  "Schema_HasArgument sch nm = (declared_arguments sch nm \<noteq> None)"

text \<open>
  Modelled from the spec: \<^verbatim>\<open>OpSchema::HasArgumentDefaultValue(name)\<close> (op_schema.h is not
  part of the sources): whether the declared argument has the optional default value.
\<close>

definition HasArgumentDefaultValue :: "('t, 'v) OpSchema \<Rightarrow> string \<Rightarrow> bool" where
  "HasArgumentDefaultValue sch nm =
     (case declared_arguments sch nm of
        None \<Rightarrow> False
      | Some d \<Rightarrow> def_default d \<noteq> None)"

text \<open>
  Modelled from the spec: \<^verbatim>\<open>OpSchema::FindDefaultValue(name)\<close> (op_schema.h is not part of
  the sources): the default value instance of the argument, null (\<open>None\<close>) when there is
  none. The \<^verbatim>\<open>dynamic_cast\<close> of the caller compares its storage type.
\<close>

definition FindDefaultValue :: "('t, 'v) OpSchema \<Rightarrow> string \<Rightarrow> ('t \<times> 'v) option" where
  "FindDefaultValue sch nm =
     (case declared_arguments sch nm of
        None \<Rightarrow> None
      | Some d \<Rightarrow> def_default d)"

text \<open>
  Modelled from the spec: \<^verbatim>\<open>OpSchema::GetDefaultValueForArgument<S>(name)\<close> (op_schema.h
  is not part of the sources). "Falls back to the
  Schema's declared default for name; fails with UnknownArgument if the schema declares
  no such argument and NoDefault if it declares the argument but no default." The
  default is read at the storage type \<open>S\<close>, which fails if it is stored as another type.
\<close>

definition GetDefaultValueForArgument ::
  "('t, 'v) OpSchema \<Rightarrow> 't \<Rightarrow> string \<Rightarrow> 'v error + 'v" where
  "GetDefaultValueForArgument sch S nm =
     (case declared_arguments sch nm of
        None \<Rightarrow> Inl (UnknownArgument nm)
      | Some d \<Rightarrow>
          (case def_default d of
             None \<Rightarrow> Inl (NoDefault nm)
           | Some (ty, v) \<Rightarrow> if ty = S then Inr v else Inl (TypeMismatch nm)))"

text \<open>
  Modelled from the spec: the tensor list bound to an argument input and the
  \<^verbatim>\<open>ArgumentWorkspace\<close> (tensor.h and workspace.h are not part of the sources). "Holds:
  mapping from argument-input name to the concrete per-sample tensor values for the
  current batch." A tensor list has one shape per sample (the extents of each
  dimension), an element type and the elements of each sample.
\<close>

record ('t, 'v) TensorList =
  tl_shape :: "int list list"
  tl_type :: 't
  tl_data :: "'v list list"

type_synonym ('t, 'v) ArgumentWorkspace = "string \<rightharpoonup> ('t, 'v) TensorList"

text \<open>
  Modelled from the spec: \<^verbatim>\<open>ArgumentWorkspace::ArgumentInput(name)\<close> (workspace.h is not
  part of the sources): the tensor list the workspace binds to the name; a name it does
  not bind is an error.
\<close>

definition ArgumentInput ::
  "('t, 'v) ArgumentWorkspace \<Rightarrow> string \<Rightarrow> 'v error + ('t, 'v) TensorList" where
  "ArgumentInput ws nm =
     (case ws nm of
        None \<Rightarrow> Inl (ArgumentInputNotFound nm)
      | Some tlist \<Rightarrow> Inr tlist)"

text \<open>
  Modelled from the spec: \<^verbatim>\<open>value.tensor<T>(idx)[0]\<close> (tensor.h is not part of the
  sources), "the per-sample tensor value for sample_index": the first element of sample
  \<open>idx\<close>. C++ does not say what a read outside the batch or of a sample without
  elements gives; here it is an error, so that no theorem rests on such a read.
\<close>

definition tensor_first :: "('t, 'v) TensorList \<Rightarrow> int \<Rightarrow> 'v error + 'v" where
  "tensor_first tlist idx =
     (if 0 \<le> idx \<and> idx < int (length (tl_data tlist))
      then (case tl_data tlist ! nat idx of
              [] \<Rightarrow> Inl (SampleOutOfRange idx)
            | x # _ \<Rightarrow> Inr x)
      else Inl (SampleOutOfRange idx))"

text \<open>
  Modelled from the spec: \<^verbatim>\<open>is_uniform(shape)\<close> (tensor_shape.h is not part of the
  sources): every sample of the batch has the same shape, that of the first one.
\<close>

fun is_uniform :: "int list list \<Rightarrow> bool" where
  "is_uniform [] = True"
| "is_uniform (s # ss) = list_all (\<lambda>x. x = s) ss"

text \<open>
  Modelled from the spec: \<^verbatim>\<open>volume(shape[i])\<close> (tensor_shape.h is not part of the sources):
  the number of elements a sample of that shape holds ("each sample holds exactly one
  element"), the product of its extents. \<^verbatim>\<open>shape[i].empty()\<close> is \<open>s = []\<close>: the shape has
  no dimension.
\<close>

definition volume :: "int list \<Rightarrow> int" where
  "volume sh = foldr (\<lambda>x y. x * y) sh 1"

subsection \<open>OpSpec\<close>

record InOutDeviceDesc =
  desc_name :: string
  desc_device :: string

text \<open>
  The members of \<^verbatim>\<open>class OpSpec\<close> (the trailing underscore of the C++ names is dropped;
  \<open>schema\<close> is the pointer \<^verbatim>\<open>schema_\<close>, \<open>None\<close> when it is null).
\<close>

record ('t, 'v) OpSpec =
  schema_name :: string
  schema :: "('t, 'v) OpSchema option"
  arguments :: "('t, 'v) Argument list"
  argument_idxs :: "string \<rightharpoonup> nat"
  argument_inputs :: "(string \<times> int) list"
  argument_input_idxs :: "string \<rightharpoonup> int"
  set_through_deprecated_arguments :: "string \<rightharpoonup> string"
  output_name_idx :: "(string \<times> string) \<rightharpoonup> int"
  inputs :: "InOutDeviceDesc list"
  outputs :: "InOutDeviceDesc list"

text \<open>
  \<^verbatim>\<open>OpSpec(schema_name)\<close> calls \<^verbatim>\<open>SetSchema\<close>, which looks the name up in the schema
  registry (a parameter here) unless the name is empty.
\<close>

definition OpSpec_default :: "('t, 'v) OpSpec" where
  "OpSpec_default =
     \<lparr>schema_name = [], schema = None, arguments = [], argument_idxs = Map.empty,
      argument_inputs = [], argument_input_idxs = Map.empty,
      set_through_deprecated_arguments = Map.empty, output_name_idx = Map.empty,
      inputs = [], outputs = []\<rparr>"

definition SetSchema ::
  "(string \<rightharpoonup> ('t, 'v) OpSchema) \<Rightarrow> ('t, 'v) OpSpec \<Rightarrow> string \<Rightarrow> ('t, 'v) OpSpec" where
  "SetSchema registry spec nm =
     spec\<lparr>schema_name := nm, schema := (if nm = [] then None else registry nm)\<rparr>"

definition OpSpec_named ::
  "(string \<rightharpoonup> ('t, 'v) OpSchema) \<Rightarrow> string \<Rightarrow> ('t, 'v) OpSpec" where
  "OpSpec_named registry nm = SetSchema registry OpSpec_default nm"

definition GetSchema :: "('t, 'v) OpSpec \<Rightarrow> 'v error + ('t, 'v) OpSchema" where
  "GetSchema spec =
     (case schema spec of
        None \<Rightarrow> Inl (NoSchema (schema_name spec))
      | Some sch \<Rightarrow> Inr sch)"

definition HasArgument :: "('t, 'v) OpSpec \<Rightarrow> string \<Rightarrow> bool" where
  "HasArgument spec nm = (argument_idxs spec nm \<noteq> None)"

definition HasTensorArgument :: "('t, 'v) OpSpec \<Rightarrow> string \<Rightarrow> bool" where
  "HasTensorArgument spec nm = (argument_input_idxs spec nm \<noteq> None)"

definition ArgumentDefined :: "('t, 'v) OpSpec \<Rightarrow> string \<Rightarrow> bool" where
  "ArgumentDefined spec nm = (HasArgument spec nm \<or> HasTensorArgument spec nm)"

subsection \<open>Shape check of a tensor argument\<close>

text \<open>
  The loop of \<^verbatim>\<open>CheckScalarArgumentShape\<close>:
  \<^verbatim>\<open>for (i = 0; i < shape.num_samples() && valid_shape; i++)
     valid_shape = volume(shape[i]) == 1 || shape[i].empty();\<close>
  It stops at the first sample that is neither of volume one nor empty.
\<close>

fun valid_shape :: "int list list \<Rightarrow> bool" where
  "valid_shape [] = True"
| "valid_shape (s # ss) = (if volume s = 1 \<or> s = [] then valid_shape ss else False)"

definition CheckScalarArgumentShape ::
  "int list list \<Rightarrow> 'v \<Rightarrow> string \<Rightarrow> bool \<Rightarrow> 'v error + bool" where
  "CheckScalarArgumentShape shape batch_size nm should_throw =
     (if \<not> is_uniform shape then Inl (NonUniform nm)
      else if should_throw \<and> \<not> valid_shape shape
           then Inl (ShapeMismatch nm batch_size shape)
           else Inr (valid_shape shape))"

subsection \<open>GetArgument and TryGetArgument\<close>

text \<open>
  \<^verbatim>\<open>GetArgumentImpl<T, S>(name, ws, idx)\<close>. The workspace pointer is an option. The tensor
  tier calls \<^verbatim>\<open>GetArgument<int>("max_batch_size")\<close> with the default (null) workspace, so
  the recursion ends after one step: with a null workspace the tensor tier fails
  at once. The value read from the tensor already has type \<^verbatim>\<open>T\<close>.
  \<^verbatim>\<open>arguments_[arg_it->second]\<close> is an unchecked read of a vector; an index outside of
  it, which the add and set operations never store, is an error here.
\<close>

function GetArgumentImpl ::
  "('t, 'v) TypeTable \<Rightarrow> 't \<Rightarrow> 't \<Rightarrow> ('t, 'v) OpSpec \<Rightarrow> string \<Rightarrow>
   ('t, 'v) ArgumentWorkspace option \<Rightarrow> int \<Rightarrow> 'v error + 'v" where
  "GetArgumentImpl tt T S spec nm None idx =
     (if HasTensorArgument spec nm then Inl (MissingContext nm)
      else (case argument_idxs spec nm of
              Some i \<Rightarrow>
                (if i < length (arguments spec)
                 then (case Get S (arguments spec ! i) of
                         Inl e \<Rightarrow> Inl e
                       | Inr v \<Rightarrow> Inr (static_cast tt T v))
                 else Inl (CorruptIndex nm))
            | None \<Rightarrow>
                (case GetSchema spec of
                   Inl e \<Rightarrow> Inl e
                 | Inr sch \<Rightarrow>
                     (case GetDefaultValueForArgument sch S nm of
                        Inl e \<Rightarrow> Inl e
                      | Inr v \<Rightarrow> Inr (static_cast tt T v)))))"
| "GetArgumentImpl tt T S spec nm (Some ws) idx =
     (if HasTensorArgument spec nm then
        (case ArgumentInput ws nm of
           Inl e \<Rightarrow> Inl e
         | Inr val \<Rightarrow>
             (case GetArgumentImpl tt (int_type tt) (argument_storage_t tt (int_type tt))
                     spec ''max_batch_size'' None 0 of
                Inl e \<Rightarrow> Inl e
              | Inr batch_size \<Rightarrow>
                  (case CheckScalarArgumentShape (tl_shape val) batch_size nm True of
                     Inl e \<Rightarrow> Inl e
                   | Inr _ \<Rightarrow>
                       (if tl_type val \<noteq> T then Inl (TypeMismatch nm)
                        else tensor_first val idx))))
      else (case argument_idxs spec nm of
              Some i \<Rightarrow>
                (if i < length (arguments spec)
                 then (case Get S (arguments spec ! i) of
                         Inl e \<Rightarrow> Inl e
                       | Inr v \<Rightarrow> Inr (static_cast tt T v))
                 else Inl (CorruptIndex nm))
            | None \<Rightarrow>
                (case GetSchema spec of
                   Inl e \<Rightarrow> Inl e
                 | Inr sch \<Rightarrow>
                     (case GetDefaultValueForArgument sch S nm of
                        Inl e \<Rightarrow> Inl e
                      | Inr v \<Rightarrow> Inr (static_cast tt T v)))))"
  by pat_completeness auto
termination
  by (relation "measure (\<lambda>(tt, T, S, spec, nm, ws, idx). case ws of None \<Rightarrow> 0 | Some _ \<Rightarrow> 1)")
     auto

definition GetArgument ::
  "('t, 'v) TypeTable \<Rightarrow> 't \<Rightarrow> ('t, 'v) OpSpec \<Rightarrow> string \<Rightarrow>
   ('t, 'v) ArgumentWorkspace option \<Rightarrow> int \<Rightarrow> 'v error + 'v" where
  "GetArgument tt T spec nm ws idx =
     GetArgumentImpl tt T (argument_storage_t tt T) spec nm ws idx"

text \<open>
  \<^verbatim>\<open>TryGetArgumentImpl<T, S>(result, name, ws, idx)\<close>. The result is \<open>Inr None\<close> when the
  function returns false (\<^verbatim>\<open>result\<close> is left as it was), \<open>Inr (Some v)\<close> when it returns
  true after storing \<open>v\<close> in \<^verbatim>\<open>result\<close>, and \<open>Inl e\<close> when an enforcement throws.
  \<^verbatim>\<open>GetSchema()\<close> is called before the local lookup is inspected.
\<close>

definition TryGetArgumentImpl ::
  "('t, 'v) TypeTable \<Rightarrow> 't \<Rightarrow> 't \<Rightarrow> ('t, 'v) OpSpec \<Rightarrow> string \<Rightarrow>
   ('t, 'v) ArgumentWorkspace option \<Rightarrow> int \<Rightarrow> 'v error + 'v option" where
  "TryGetArgumentImpl tt T S spec nm ws idx =
     (if HasTensorArgument spec nm then
        (case ws of
           None \<Rightarrow> Inr None
         | Some w \<Rightarrow>
             (case ArgumentInput w nm of
                Inl e \<Rightarrow> Inl e
              | Inr val \<Rightarrow>
                  (case GetArgument tt (int_type tt) spec ''max_batch_size'' None 0 of
                     Inl e \<Rightarrow> Inl e
                   | Inr batch_size \<Rightarrow>
                       (case CheckScalarArgumentShape (tl_shape val) batch_size nm False of
                          Inl e \<Rightarrow> Inl e
                        | Inr ok \<Rightarrow>
                            (if \<not> ok then Inr None
                             else if tl_type val \<noteq> T then Inr None
                             else (case tensor_first val idx of
                                     Inl e \<Rightarrow> Inl e
                                   | Inr x \<Rightarrow> Inr (Some x)))))))
      else
        (case GetSchema spec of
           Inl e \<Rightarrow> Inl e
         | Inr sch \<Rightarrow>
             (case argument_idxs spec nm of
                Some i \<Rightarrow>
                  (if i < length (arguments spec)
                   then (if IsType S (arguments spec ! i)
                         then (case Get S (arguments spec ! i) of
                                 Inl e \<Rightarrow> Inl e
                               | Inr v \<Rightarrow> Inr (Some (static_cast tt T v)))
                         else Inr None)
                   else Inl (CorruptIndex nm))
              | None \<Rightarrow>
                  (if Schema_HasArgument sch nm \<and> HasArgumentDefaultValue sch nm
                   then (case FindDefaultValue sch nm of
                           None \<Rightarrow> Inr None
                         | Some (ty, v) \<Rightarrow>
                             if ty = S then Inr (Some (static_cast tt T v)) else Inr None)
                   else Inr None))))"

definition TryGetArgument ::
  "('t, 'v) TypeTable \<Rightarrow> 't \<Rightarrow> ('t, 'v) OpSpec \<Rightarrow> string \<Rightarrow>
   ('t, 'v) ArgumentWorkspace option \<Rightarrow> int \<Rightarrow> 'v error + 'v option" where
  "TryGetArgument tt T spec nm ws idx =
     TryGetArgumentImpl tt T (argument_storage_t tt T) spec nm ws idx"

subsection \<open>Adding and setting literal arguments\<close>

text \<open>
  Modelled from the spec: \<^verbatim>\<open>OpSpec::EnforceNoAliasWithDeprecated\<close> (declared in op_spec.h,
  defined in op_spec.cc, which is not part of the sources). The header: "Check if the
  arg_name was already set through a deprecated argument"; the member
  \<open>set_through_deprecated_arguments\<close> "maps regular_argument -> deprecated_argument".
  The spec: "an explicit provenance record (which concrete name was actually used to
  set a logical argument) to detect and reject the double-set case".
\<close>

definition EnforceNoAliasWithDeprecated ::
  "('t, 'v) OpSpec \<Rightarrow> string \<Rightarrow> 'v error + unit" where
  "EnforceNoAliasWithDeprecated spec arg_nm =
     (case set_through_deprecated_arguments spec arg_nm of
        Some deprecated_nm \<Rightarrow> Inl (ConflictingSpecification arg_nm)
      | None \<Rightarrow> Inr ())"

text \<open>
  Modelled from the spec: the assignment at the end of \<^verbatim>\<open>OpSpec::SetInitializedArg\<close>
  (op_spec.cc is not part of the sources). The header: "Sets or adds an argument with
  given name"; the members: "the list of arguments, in addition order" and "maps names
  to argument indices". An argument whose name has an index replaces the one stored
  there; otherwise it is appended and its index recorded.
\<close>

definition set_or_add ::
  "('t, 'v) OpSpec \<Rightarrow> string \<Rightarrow> ('t, 'v) Argument \<Rightarrow> ('t, 'v) OpSpec" where
  "set_or_add spec nm arg =
     (case argument_idxs spec nm of
        Some i \<Rightarrow> spec\<lparr>arguments := (arguments spec)[i := arg]\<rparr>
      | None \<Rightarrow>
          spec\<lparr>arguments := arguments spec @ [arg],
               argument_idxs := (argument_idxs spec)(nm \<mapsto> length (arguments spec))\<rparr>)"

text \<open>
  Modelled from the spec: the lookup of a name in the "deprecated-alias mapping (old
  name -> new name, possibly removed)" of the schema of the OpSpec (op_schema.h and
  op_spec.cc are not part of the sources). An OpSpec without a schema has no alias.
\<close>

definition deprecation_of :: "('t, 'v) OpSpec \<Rightarrow> string \<Rightarrow> string option option" where
  "deprecation_of spec nm =
     (case schema spec of
        None \<Rightarrow> None
      | Some sch \<Rightarrow> deprecated_arguments sch nm)"

text \<open>
  Modelled from the spec: \<^verbatim>\<open>OpSpec::SetInitializedArg\<close> (declared in op_spec.h, defined in
  op_spec.cc, which is not part of the sources). The header: "Sets or adds an argument
  with given name. Deprecated arguments are renamed (or dropped, if no longer used)".
  The spec: "setting an argument under an old name rewrites it to the new name (or drops
  it if the alias says removed, with a recorded diagnostic); if both the old and new
  names are set on the same OpSpec, this is flagged as a conflicting
  double-specification and rejected at the second AddArg/SetArg call". The diagnostic of
  a dropped argument is not a member of OpSpec and is not modelled.
\<close>

definition SetInitializedArg ::
  "('t, 'v) OpSpec \<Rightarrow> string \<Rightarrow> ('t, 'v) Argument \<Rightarrow> 'v error + ('t, 'v) OpSpec" where
  "SetInitializedArg spec arg_nm arg =
     (case deprecation_of spec arg_nm of
        Some None \<Rightarrow> Inr spec
      | Some (Some new_nm) \<Rightarrow>
          (if argument_idxs spec new_nm \<noteq> None
           then Inl (ConflictingSpecification new_nm)
           else Inr ((set_or_add spec new_nm (arg\<lparr>arg_name := new_nm\<rparr>))
                       \<lparr>set_through_deprecated_arguments :=
                          (set_through_deprecated_arguments spec)(new_nm \<mapsto> arg_nm)\<rparr>))
      | None \<Rightarrow>
          (case EnforceNoAliasWithDeprecated spec arg_nm of
             Inl e \<Rightarrow> Inl e
           | Inr _ \<Rightarrow> Inr (set_or_add spec arg_nm arg)))"

text \<open>
  \<^verbatim>\<open>SetArg<T>(name, val)\<close>, \<^verbatim>\<open>AddArg<T>(name, val)\<close> and
  \<^verbatim>\<open>AddArgIfNotExisting<T>(name, val)\<close>, as op_spec.h defines them.
\<close>

definition SetArg ::
  "('t, 'v) TypeTable \<Rightarrow> 't \<Rightarrow> ('t, 'v) OpSpec \<Rightarrow> string \<Rightarrow> 'v \<Rightarrow>
   'v error + ('t, 'v) OpSpec" where
  "SetArg tt T spec nm val =
     SetInitializedArg spec nm
       (Store (argument_storage_t tt T) nm (static_cast tt (argument_storage_t tt T) val))"

definition AddArg ::
  "('t, 'v) TypeTable \<Rightarrow> 't \<Rightarrow> ('t, 'v) OpSpec \<Rightarrow> string \<Rightarrow> 'v \<Rightarrow>
   'v error + ('t, 'v) OpSpec" where
  "AddArg tt T spec nm val =
     (case EnforceNoAliasWithDeprecated spec nm of
        Inl e \<Rightarrow> Inl e
      | Inr _ \<Rightarrow>
          (if argument_idxs spec nm \<noteq> None
           then Inl (ConflictingSpecification nm)
           else SetArg tt T spec nm val))"

definition AddArgIfNotExisting ::
  "('t, 'v) TypeTable \<Rightarrow> 't \<Rightarrow> ('t, 'v) OpSpec \<Rightarrow> string \<Rightarrow> 'v \<Rightarrow>
   'v error + ('t, 'v) OpSpec" where
  "AddArgIfNotExisting tt T spec nm val =
     (if argument_idxs spec nm \<noteq> None then Inr spec else SetArg tt T spec nm val)"

subsection \<open>Inputs and outputs\<close>


definition NumArgumentInput :: "('t, 'v) OpSpec \<Rightarrow> int" where
  "NumArgumentInput spec = int (length (argument_inputs spec))"







text \<open>
  Modelled from the spec: \<^verbatim>\<open>OpSpec::AddInput\<close> (declared in op_spec.h, defined in
  op_spec.cc, which is not part of the sources). The spec: an OpSpec owns an "ordered
  sequence of regular inputs and outputs, each a (name, device) pair", next to its
  "ordered sequence of argument-inputs". The header: "The order in which inputs are
  added to the OpSpec is the order in which the Operator will receive them", and the
  declaration \<^verbatim>\<open>AddInput(name, device, bool regular_input = true)\<close>. What the flag does
  is not written in either; it is read from the accessors of op_spec.h, which take the
  regular inputs to be the first \<^verbatim>\<open>NumInput() - NumArgumentInput()\<close> entries of
  \<^verbatim>\<open>inputs_\<close> (\<^verbatim>\<open>IsArgumentInput\<close> is \<^verbatim>\<open>idx >= NumRegularInput()\<close>, and
  \<^verbatim>\<open>ArgumentInputName\<close> reads \<^verbatim>\<open>argument_inputs_[idx - NumRegularInput()]\<close>): a regular
  input is accepted only while no argument input has been added, and an input that is
  not regular is always accepted.
\<close>

definition AddInput ::
  "('t, 'v) OpSpec \<Rightarrow> string \<Rightarrow> string \<Rightarrow> bool \<Rightarrow> 'v error + ('t, 'v) OpSpec" where
  "AddInput spec nm device regular_input =
     (if regular_input \<and> NumArgumentInput spec \<noteq> 0
      then Inl (RegularInputAfterArgumentInput nm)
      else Inr (spec\<lparr>inputs := inputs spec @ [\<lparr>desc_name = nm, desc_device = device\<rparr>]\<rparr>))"











section \<open>File stream over the C standard library\<close>

text \<open>
  The C library is a parameter: \<open>fopen os p mode\<close> is \<open>Inr\<close> of the stream handle,
  or \<open>Inl\<close> of the value it leaves in \<^verbatim>\<open>errno\<close> when it returns a null pointer, and
  \<open>strerror\<close> is the text of an error number. The failure of the constructor is the
  message its enforcement is given.
\<close>

record 'f CLib =
  fopen :: "string \<Rightarrow> string \<Rightarrow> nat + 'f"
  strerror :: "nat \<Rightarrow> string"

record 'f StdFileStream =
  path :: string
  fp :: "'f option"

definition StdFileStream_ctor :: "'f CLib \<Rightarrow> string \<Rightarrow> string + 'f StdFileStream" where
  "StdFileStream_ctor os p =
     (case fopen os p ''rb'' of
        Inl errno \<Rightarrow> Inl (''Could not open file '' @ p @ '': '' @ strerror os errno)
      | Inr f \<Rightarrow> Inr \<lparr>path = p, fp = Some f\<rparr>)"

definition Close :: "'f StdFileStream \<Rightarrow> 'f StdFileStream" where
  "Close s = (if fp s \<noteq> None then s\<lparr>fp := None\<rparr> else s)"

section \<open>Decode backend selection\<close>


datatype ImageFormat = JPEG | PNG | BMP | TIFF







section \<open>Concrete specifications used to exercise the theorems\<close>

text \<open>
  C++ types are named by strings and values are integers. \<^verbatim>\<open>int\<close> is stored as
  \<^verbatim>\<open>int64\<close>, every other type as itself, and conversions keep the number.
\<close>

definition ex_types :: "(string, int) TypeTable" where
  "ex_types =
     \<lparr>int_type = ''int'',
      argument_storage_t = (\<lambda>t. if t = ''int'' then ''int64'' else t),
      static_cast = (\<lambda>t v. v)\<rparr>"

definition ex_schema :: "(string, int) OpSchema" where
  "ex_schema =
     \<lparr>op_name = ''Rotate'',
      declared_arguments =
        [''max_batch_size'' \<mapsto>
           \<lparr>def_type = ''int64'', def_default = Some (''int64'', 4), def_required = False\<rparr>,
         ''angle'' \<mapsto>
           \<lparr>def_type = ''float'', def_default = None, def_required = True\<rparr>,
         ''fill'' \<mapsto>
           \<lparr>def_type = ''int64'', def_default = Some (''int64'', 7), def_required = False\<rparr>],
      deprecated_arguments = [''rot'' \<mapsto> Some ''angle'', ''legacy'' \<mapsto> None]\<rparr>"

definition ex_registry :: "string \<rightharpoonup> (string, int) OpSchema" where
  "ex_registry = [''Rotate'' \<mapsto> ex_schema]"

definition ex_spec :: "(string, int) OpSpec" where
  "ex_spec = OpSpec_named ex_registry ''Rotate''"

text \<open>\<open>ex_spec\<close> after \<^verbatim>\<open>AddArgumentInput("angle", "angle_in")\<close>.\<close>

definition ex_tensor_spec :: "(string, int) OpSpec" where
  "ex_tensor_spec =
     ex_spec\<lparr>argument_inputs := [(''angle'', 0)],
             argument_input_idxs := [''angle'' \<mapsto> 0],
             inputs := [\<lparr>desc_name = ''angle_in'', desc_device = ''cpu''\<rparr>]\<rparr>"

text \<open>\<open>ex_spec\<close> after \<^verbatim>\<open>AddArg<int>("fill", 9)\<close>.\<close>

definition ex_literal_spec :: "(string, int) OpSpec" where
  "ex_literal_spec =
     ex_spec\<lparr>arguments := [Store ''int64'' ''fill'' 9],
             argument_idxs := [''fill'' \<mapsto> 0]\<rparr>"

text \<open>\<^verbatim>\<open>OpSpec()\<close> (no schema) after \<^verbatim>\<open>AddArg<int>("fill", 9)\<close>.\<close>

definition ex_schemaless_spec :: "(string, int) OpSpec" where
  "ex_schemaless_spec =
     OpSpec_default\<lparr>arguments := [Store ''int64'' ''fill'' 9],
                    argument_idxs := [''fill'' \<mapsto> 0]\<rparr>"

text \<open>
  \<open>ex_spec\<close> after \<^verbatim>\<open>AddArg<float>("angle", 30)\<close>, and after
  \<^verbatim>\<open>SetArg<float>("rot", 15)\<close>, where the schema renames \<open>rot\<close> to \<open>angle\<close>.
\<close>

definition ex_angle_spec :: "(string, int) OpSpec" where
  "ex_angle_spec =
     ex_spec\<lparr>arguments := [Store ''float'' ''angle'' 30],
             argument_idxs := [''angle'' \<mapsto> 0]\<rparr>"

definition ex_rot_spec :: "(string, int) OpSpec" where
  "ex_rot_spec =
     ex_spec\<lparr>arguments := [Store ''float'' ''angle'' 15],
             argument_idxs := [''angle'' \<mapsto> 0],
             set_through_deprecated_arguments := [''angle'' \<mapsto> ''rot'']\<rparr>"

text \<open>
  Workspaces: a batch of two zero-dimensional samples, a batch of two samples of three
  elements each, and a batch whose samples differ in shape.
\<close>

definition ex_ws_scalars :: "(string, int) ArgumentWorkspace" where
  "ex_ws_scalars =
     [''angle'' \<mapsto> \<lparr>tl_shape = [[], []], tl_type = ''float'', tl_data = [[30], [45]]\<rparr>]"

definition ex_ws_triples :: "(string, int) ArgumentWorkspace" where
  "ex_ws_triples =
     [''angle'' \<mapsto>
        \<lparr>tl_shape = [[3], [3]], tl_type = ''float'', tl_data = [[1, 2, 3], [4, 5, 6]]\<rparr>]"



text \<open>A C library that knows one file, and a JPEG sample the hardware engine accepts.\<close>

definition ex_clib :: "nat CLib" where
  "ex_clib =
     \<lparr>fopen = (\<lambda>p mode. if p = ''/data/a.jpg'' then Inr 3 else Inl 2),
      strerror = (\<lambda>e. if e = 2 then ''No such file or directory'' else ''Unknown error'')\<rparr>"


section \<open>Properties\<close>

subsection \<open>Auxiliary facts\<close>

lemma valid_shape_iff:
  "valid_shape sh = (\<not> list_ex (\<lambda>s. s \<noteq> [] \<and> volume s \<noteq> 1) sh)"
  by (induction sh) auto

lemma ex_HasTensorArgument: "HasTensorArgument ex_tensor_spec ''angle''"
  by (simp add: HasTensorArgument_def ex_tensor_spec_def)

lemma ex_int_type: "int_type ex_types = ''int''"
  by (simp add: ex_types_def)

lemma ex_max_batch_size:
  "GetArgument ex_types ''int'' ex_tensor_spec ''max_batch_size'' None 0 = Inr 4"
  by (simp add: GetArgument_def HasTensorArgument_def GetSchema_def
      GetDefaultValueForArgument_def ex_tensor_spec_def ex_spec_def OpSpec_named_def
      SetSchema_def OpSpec_default_def ex_registry_def ex_schema_def ex_types_def)

lemma ex_max_batch_size':
  "GetArgument ex_types (int_type ex_types) ex_tensor_spec ''max_batch_size'' None 0 = Inr 4"
  by (simp add: ex_int_type ex_max_batch_size)

lemma ex_scalars_bound:
  "ex_ws_scalars ''angle'' =
     Some \<lparr>tl_shape = [[], []], tl_type = ''float'', tl_data = [[30], [45]]\<rparr>"
  by (simp add: ex_ws_scalars_def)

lemma ex_triples_bound:
  "ex_ws_triples ''angle'' =
     Some \<lparr>tl_shape = [[3], [3]], tl_type = ''float'', tl_data = [[1, 2, 3], [4, 5, 6]]\<rparr>"
  by (simp add: ex_ws_triples_def)

lemma ex_literal_facts:
  "\<not> HasTensorArgument ex_literal_spec ''fill''"
  "schema ex_literal_spec = Some ex_schema"
  "argument_idxs ex_literal_spec ''fill'' = Some 0"
  "arguments ex_literal_spec = [Store ''int64'' ''fill'' 9]"
  by (simp_all add: HasTensorArgument_def ex_literal_spec_def ex_spec_def OpSpec_named_def
      SetSchema_def OpSpec_default_def ex_registry_def)

lemma ex_spec_facts:
  "\<not> HasTensorArgument ex_spec nm"
  "schema ex_spec = Some ex_schema"
  "argument_idxs ex_spec nm = None"
  by (simp_all add: HasTensorArgument_def ex_spec_def OpSpec_named_def
      SetSchema_def OpSpec_default_def ex_registry_def)

subsection \<open>The three tiers of GetArgument\<close>

text \<open>
  Claim C1. For every argument name, \<^verbatim>\<open>GetArgument<T>(name, ws, idx)\<close> resolves in
  exactly three tiers, in this order. If the name is registered as an argument input
  (tensor argument), the per-sample value is read from the workspace: the workspace
  must be there and bind the name, the maximum batch size must resolve, the tensor list
  must be uniform, scalar-shaped and of element type \<^verbatim>\<open>T\<close>, and then the first element
  of sample \<open>idx\<close> is the result. Otherwise, if a literal argument of that name was set
  on the OpSpec, the result is its stored value read at the storage type and converted
  to \<^verbatim>\<open>T\<close>. Otherwise the result is the default the schema declares for the name,
  converted to \<^verbatim>\<open>T\<close>; this fails when the schema declares no such argument or no
  default for it. A failure inside one tier never falls through to the next tier.
\<close>

theorem GetArgument_three_tiers:
  "GetArgument tt T spec nm ws idx =
     (if HasTensorArgument spec nm then
        (case ws of
           None \<Rightarrow> Inl (MissingContext nm)
         | Some w \<Rightarrow>
             (case w nm of
                None \<Rightarrow> Inl (ArgumentInputNotFound nm)
              | Some tlist \<Rightarrow>
                  (case GetArgument tt (int_type tt) spec ''max_batch_size'' None 0 of
                     Inl e \<Rightarrow> Inl e
                   | Inr b \<Rightarrow>
                       if \<not> is_uniform (tl_shape tlist) then Inl (NonUniform nm)
                       else if \<not> valid_shape (tl_shape tlist)
                            then Inl (ShapeMismatch nm b (tl_shape tlist))
                       else if tl_type tlist \<noteq> T then Inl (TypeMismatch nm)
                       else tensor_first tlist idx)))
      else
        (case argument_idxs spec nm of
           Some i \<Rightarrow>
             if i < length (arguments spec)
             then (case Get (argument_storage_t tt T) (arguments spec ! i) of
                     Inl e \<Rightarrow> Inl e
                   | Inr v \<Rightarrow> Inr (static_cast tt T v))
             else Inl (CorruptIndex nm)
         | None \<Rightarrow>
             (case schema spec of
                None \<Rightarrow> Inl (NoSchema (schema_name spec))
              | Some sch \<Rightarrow>
                  (case declared_arguments sch nm of
                     None \<Rightarrow> Inl (UnknownArgument nm)
                   | Some d \<Rightarrow>
                       (case def_default d of
                          None \<Rightarrow> Inl (NoDefault nm)
                        | Some (ty, v) \<Rightarrow>
                            if ty = argument_storage_t tt T then Inr (static_cast tt T v)
                            else Inl (TypeMismatch nm))))))"
proof (cases ws)
  case None
  then show ?thesis
    by (simp add: GetArgument_def GetSchema_def GetDefaultValueForArgument_def
        split: option.splits sum.splits)
next
  case (Some w)
  then show ?thesis
    by (simp add: GetArgument_def GetSchema_def GetDefaultValueForArgument_def
        ArgumentInput_def CheckScalarArgumentShape_def
        split: option.splits sum.splits)
qed

theorem GetArgument_three_tiers_witness:
  "GetArgument ex_types ''float'' ex_tensor_spec ''angle'' (Some ex_ws_scalars) 1 = Inr 45
   \<and> GetArgument ex_types ''int'' ex_literal_spec ''fill'' None 0 = Inr 9
   \<and> GetArgument ex_types ''int'' ex_spec ''fill'' None 0 = Inr 7
   \<and> GetArgument ex_types ''float'' ex_spec ''angle'' None 0 = Inl (NoDefault ''angle'')
   \<and> GetArgument ex_types ''int'' ex_spec ''crop'' None 0 = Inl (UnknownArgument ''crop'')"
proof -
  have t1: "GetArgument ex_types ''float'' ex_tensor_spec ''angle'' (Some ex_ws_scalars) 1
      = Inr 45"
    using GetArgument_three_tiers [of ex_types "''float''" ex_tensor_spec "''angle''"
        "Some ex_ws_scalars" 1]
    by (simp add: ex_HasTensorArgument ex_scalars_bound ex_max_batch_size' volume_def
        tensor_first_def)
  have t2: "GetArgument ex_types ''int'' ex_literal_spec ''fill'' None 0 = Inr 9"
    using GetArgument_three_tiers [of ex_types "''int''" ex_literal_spec "''fill''" None 0]
    by (simp add: ex_literal_facts Get_def IsType_def Store_def ex_types_def)
  have t3: "GetArgument ex_types ''int'' ex_spec ''fill'' None 0 = Inr 7"
    using GetArgument_three_tiers [of ex_types "''int''" ex_spec "''fill''" None 0]
    by (simp add: ex_spec_facts ex_schema_def ex_types_def)
  have t4: "GetArgument ex_types ''float'' ex_spec ''angle'' None 0 = Inl (NoDefault ''angle'')"
    using GetArgument_three_tiers [of ex_types "''float''" ex_spec "''angle''" None 0]
    by (simp add: ex_spec_facts ex_schema_def ex_types_def)
  have t5: "GetArgument ex_types ''int'' ex_spec ''crop'' None 0 = Inl (UnknownArgument ''crop'')"
    using GetArgument_three_tiers [of ex_types "''int''" ex_spec "''crop''" None 0]
    by (simp add: ex_spec_facts ex_schema_def ex_types_def)
  from t1 t2 t3 t4 t5 show ?thesis by simp
qed

subsection \<open>Shape of a tensor argument\<close>

text \<open>
  Claim C2, as stated, says that an empty per-sample shape is rejected. The shape check
  accepts a sample when its volume is one or its shape is empty: a batch of
  zero-dimensional samples is read without error.
\<close>

theorem GetArgument_empty_shape_accepted:
  "HasTensorArgument ex_tensor_spec ''angle''
   \<and> ex_ws_scalars ''angle'' =
       Some \<lparr>tl_shape = [[], []], tl_type = ''float'', tl_data = [[30], [45]]\<rparr>
   \<and> GetArgument ex_types ''float'' ex_tensor_spec ''angle'' (Some ex_ws_scalars) 1 = Inr 45"
  using ex_max_batch_size
  by (simp add: GetArgument_def ArgumentInput_def CheckScalarArgumentShape_def
      HasTensorArgument_def tensor_first_def volume_def ex_tensor_spec_def ex_ws_scalars_def
      ex_types_def)

text \<open>
  Claim C2, amended. For every tensor argument that a non-null workspace binds to a
  tensor list, once the maximum batch size resolves to \<open>b\<close>: a tensor list that is not
  uniform is refused by the uniformity error, which names the argument; a uniform one
  with a sample that is not empty and whose volume is not one is refused by the shape
  error, which names the argument, the batch size \<open>b\<close> and the shape; and when every
  sample holds exactly one element or has the empty shape, the shape check passes and
  the call goes on to the element type and the read.
\<close>

theorem GetArgument_shape_check:
  assumes "HasTensorArgument spec nm" and "w nm = Some tlist"
    and "GetArgument tt (int_type tt) spec ''max_batch_size'' None 0 = Inr b"
  shows "GetArgument tt T spec nm (Some w) idx =
     (if \<not> is_uniform (tl_shape tlist) then Inl (NonUniform nm)
      else if list_ex (\<lambda>s. s \<noteq> [] \<and> volume s \<noteq> 1) (tl_shape tlist)
           then Inl (ShapeMismatch nm b (tl_shape tlist))
      else if tl_type tlist \<noteq> T then Inl (TypeMismatch nm)
      else tensor_first tlist idx)"
  using assms
  by (simp add: GetArgument_def ArgumentInput_def CheckScalarArgumentShape_def valid_shape_iff)

theorem GetArgument_shape_check_witness:
  "GetArgument ex_types ''float'' ex_tensor_spec ''angle'' (Some ex_ws_triples) 0 =
     Inl (ShapeMismatch ''angle'' 4 [[3], [3]])"
  using GetArgument_shape_check [where w = ex_ws_triples and nm = "''angle''"
      and spec = ex_tensor_spec and tt = ex_types and T = "''float''" and idx = 0,
      OF ex_HasTensorArgument ex_triples_bound ex_max_batch_size']
  by (simp add: volume_def)

subsection \<open>TryGetArgument\<close>




text \<open>
  Claim C10, as stated, says that \<^verbatim>\<open>TryGetArgument<T>\<close> returns false when the literal of
  that name is stored as another type. \<^verbatim>\<open>GetSchema()\<close> is called before the literal is
  inspected, so on an OpSpec without a schema the call throws instead.
\<close>

theorem TryGetArgument_no_schema_throws:
  "HasArgument ex_schemaless_spec ''fill''
   \<and> \<not> IsType (argument_storage_t ex_types ''float'') (arguments ex_schemaless_spec ! 0)
   \<and> TryGetArgument ex_types ''float'' ex_schemaless_spec ''fill'' None 0 = Inl (NoSchema [])"
  by (simp add: TryGetArgument_def TryGetArgumentImpl_def GetSchema_def HasTensorArgument_def
      HasArgument_def IsType_def Store_def ex_schemaless_spec_def OpSpec_default_def ex_types_def)

text \<open>
  Claim C10, amended. On an OpSpec that has a schema, for a name that is not a tensor
  argument: if a literal argument of that name exists and its stored representation type
  differs from the requested storage type \<^verbatim>\<open>S\<close>, \<^verbatim>\<open>TryGetArgument<T>\<close> returns false, and
  it does so whatever the schema is (whatever default it declares for the name): the
  schema default is consulted only when no literal of that name exists.
\<close>

theorem TryGetArgument_other_type:
  assumes "\<not> HasTensorArgument spec nm" and "schema spec = Some sch"
    and "argument_idxs spec nm = Some i" and "i < length (arguments spec)"
    and "\<not> IsType (argument_storage_t tt T) (arguments spec ! i)"
  shows "TryGetArgument tt T spec nm ws idx = Inr None
       \<and> TryGetArgument tt T (spec\<lparr>schema := Some sch'\<rparr>) nm ws idx = Inr None"
  using assms
  by (simp add: TryGetArgument_def TryGetArgumentImpl_def GetSchema_def HasTensorArgument_def)

theorem TryGetArgument_other_type_witness:
  "FindDefaultValue ex_schema ''fill'' = Some (''int64'', 7)
   \<and> TryGetArgument ex_types ''float'' ex_literal_spec ''fill'' None 0 = Inr None"
proof -
  have len: "0 < length (arguments ex_literal_spec)"
    by (simp add: ex_literal_facts)
  have "\<not> IsType (argument_storage_t ex_types ''float'') (arguments ex_literal_spec ! 0)"
    by (simp add: ex_literal_facts IsType_def Store_def ex_types_def)
  from TryGetArgument_other_type [OF ex_literal_facts(1-3) len this]
  show ?thesis by (simp add: FindDefaultValue_def ex_schema_def)
qed

subsection \<open>Null workspace on a tensor argument\<close>

text \<open>
  Claim C4. For every name registered as a tensor argument (present in the argument-input
  mapping of the OpSpec), \<^verbatim>\<open>GetArgument<T>\<close> with a null workspace fails with the
  missing-context error; it does not fall back to a literal argument or to a schema
  default.
\<close>

theorem GetArgument_null_workspace:
  "HasTensorArgument spec nm \<Longrightarrow>
     GetArgument tt T spec nm None idx = Inl (MissingContext nm)"
  by (simp add: GetArgument_def)

theorem GetArgument_null_workspace_witness:
  "GetArgument ex_types ''float'' ex_tensor_spec ''angle'' None 0 = Inl (MissingContext ''angle'')"
  using GetArgument_null_workspace [OF ex_HasTensorArgument] .

subsection \<open>Literal arguments do not depend on the workspace\<close>

text \<open>
  Claim C5. For every argument that was set as a literal on the OpSpec and is not a
  tensor argument, \<^verbatim>\<open>GetArgument<T>\<close> returns the stored value (held at the storage type
  of \<^verbatim>\<open>T\<close>, converted to \<^verbatim>\<open>T\<close>), and the result is the same for any two workspace
  pointers, null included, and any two sample indices.
\<close>

theorem GetArgument_literal:
  assumes "\<not> HasTensorArgument spec nm" and "argument_idxs spec nm = Some i"
    and "i < length (arguments spec)"
    and "IsType (argument_storage_t tt T) (arguments spec ! i)"
  shows "GetArgument tt T spec nm ws idx = Inr (static_cast tt T (arg_value (arguments spec ! i)))
       \<and> GetArgument tt T spec nm ws idx = GetArgument tt T spec nm ws' idx'"
  using assms
  by (cases ws; cases ws') (simp_all add: GetArgument_def Get_def)

theorem GetArgument_literal_witness:
  "GetArgument ex_types ''int'' ex_literal_spec ''fill'' None 0 = Inr 9
   \<and> GetArgument ex_types ''int'' ex_literal_spec ''fill'' None 0 =
       GetArgument ex_types ''int'' ex_literal_spec ''fill'' (Some ex_ws_scalars) 1"
proof -
  have len: "0 < length (arguments ex_literal_spec)"
    by (simp add: ex_literal_facts)
  have ty: "IsType (argument_storage_t ex_types ''int'') (arguments ex_literal_spec ! 0)"
    by (simp add: ex_literal_facts IsType_def Store_def ex_types_def)
  have v: "static_cast ex_types ''int'' (arg_value (arguments ex_literal_spec ! 0)) = 9"
    by (simp add: ex_literal_facts Store_def ex_types_def)
  from GetArgument_literal [OF ex_literal_facts(1,3) len ty,
      where ws = None and idx = 0 and ws' = "Some ex_ws_scalars" and idx' = 1]
  show ?thesis unfolding v .
qed

text \<open>
  The literal tier end to end: on an OpSpec where the name is neither deprecated, nor
  set through an alias, nor a tensor argument, \<^verbatim>\<open>SetArg<T>(name, v)\<close> succeeds and a
  following \<^verbatim>\<open>GetArgument<T>(name)\<close> returns \<open>v\<close> converted to the storage type and
  back to \<^verbatim>\<open>T\<close>, under any workspace.
\<close>

lemma SetArg_then_GetArgument:
  assumes "deprecation_of spec nm = None"
    and "set_through_deprecated_arguments spec nm = None"
    and "\<not> HasTensorArgument spec nm"
    and "case argument_idxs spec nm of None \<Rightarrow> True | Some i \<Rightarrow> i < length (arguments spec)"
  shows "\<exists>spec'. SetArg tt T spec nm v = Inr spec' \<and>
           GetArgument tt T spec' nm ws idx =
             Inr (static_cast tt T (static_cast tt (argument_storage_t tt T) v))"
  using assms
  by (cases ws)
    (auto simp: SetArg_def SetInitializedArg_def EnforceNoAliasWithDeprecated_def set_or_add_def
      GetArgument_def HasTensorArgument_def Get_def IsType_def Store_def
      split: option.splits)

subsection \<open>Adding an argument twice\<close>

lemma set_or_add_idx: "argument_idxs (set_or_add spec nm arg) nm \<noteq> None"
  by (simp add: set_or_add_def split: option.splits)

lemma set_or_add_idx_mono:
  "argument_idxs spec k \<noteq> None \<Longrightarrow> argument_idxs (set_or_add spec nm arg) k \<noteq> None"
  by (simp add: set_or_add_def split: option.splits)

lemma set_or_add_frame:
  "schema (set_or_add spec nm arg) = schema spec"
  "set_through_deprecated_arguments (set_or_add spec nm arg) =
     set_through_deprecated_arguments spec"
  by (simp_all add: set_or_add_def split: option.splits)

lemma SetInitializedArg_plain:
  assumes "deprecation_of spec nm = None" and "SetInitializedArg spec nm arg = Inr spec'"
  shows "spec' = set_or_add spec nm arg \<and> set_through_deprecated_arguments spec nm = None"
  using assms
  by (auto simp: SetInitializedArg_def EnforceNoAliasWithDeprecated_def split: option.splits)

lemma SetInitializedArg_renamed:
  assumes "deprecation_of spec old = Some (Some new)"
    and "SetInitializedArg spec old arg = Inr spec'"
  shows "spec' = (set_or_add spec new (arg\<lparr>arg_name := new\<rparr>))
                   \<lparr>set_through_deprecated_arguments :=
                      (set_through_deprecated_arguments spec)(new \<mapsto> old)\<rparr>"
  using assms
  by (auto simp: SetInitializedArg_def split: if_splits)

lemma SetInitializedArg_schema:
  "SetInitializedArg spec nm arg = Inr spec' \<Longrightarrow> schema spec' = schema spec"
  by (auto simp: SetInitializedArg_def set_or_add_frame split: option.splits if_splits sum.splits)

lemma deprecation_of_cong: "schema spec' = schema spec \<Longrightarrow> deprecation_of spec' = deprecation_of spec"
  by (simp add: deprecation_of_def fun_eq_iff)

lemma AddArg_present:
  "argument_idxs spec nm \<noteq> None \<Longrightarrow> AddArg tt T spec nm v = Inl (ConflictingSpecification nm)"
  by (simp add: AddArg_def EnforceNoAliasWithDeprecated_def split: option.splits)

lemma AddArg_aliased:
  "set_through_deprecated_arguments spec nm \<noteq> None \<Longrightarrow>
     AddArg tt T spec nm v = Inl (ConflictingSpecification nm)"
  by (auto simp: AddArg_def EnforceNoAliasWithDeprecated_def split: option.splits)

lemma SetArg_aliased:
  "set_through_deprecated_arguments spec nm \<noteq> None \<Longrightarrow> deprecation_of spec nm = None \<Longrightarrow>
     SetArg tt T spec nm v = Inl (ConflictingSpecification nm)"
  by (auto simp: SetArg_def SetInitializedArg_def EnforceNoAliasWithDeprecated_def
      split: option.splits)

lemma SetArg_alias_of_present:
  "deprecation_of spec old = Some (Some new) \<Longrightarrow> argument_idxs spec new \<noteq> None \<Longrightarrow>
     SetArg tt T spec old v = Inl (ConflictingSpecification new)"
  by (auto simp: SetArg_def SetInitializedArg_def)

lemma AddArg_alias_of_present:
  "deprecation_of spec old = Some (Some new) \<Longrightarrow> argument_idxs spec new \<noteq> None \<Longrightarrow>
     \<exists>n. AddArg tt T spec old v = Inl (ConflictingSpecification n)"
  using SetArg_alias_of_present [of spec old new tt T v]
  by (auto simp: AddArg_def EnforceNoAliasWithDeprecated_def split: option.splits)

lemma AddArg_Inr_SetArg:
  "AddArg tt T spec nm v = Inr spec' \<Longrightarrow> SetArg tt T spec nm v = Inr spec'"
  by (auto simp: AddArg_def split: sum.splits if_splits)

lemma SetArg_registers:
  assumes "SetArg tt T spec nm v = Inr spec'"
  shows "(deprecation_of spec nm = None \<longrightarrow>
            argument_idxs spec' nm \<noteq> None \<and> 
            set_through_deprecated_arguments spec' = set_through_deprecated_arguments spec)
       \<and> (\<forall>new. deprecation_of spec nm = Some (Some new) \<longrightarrow>
            argument_idxs spec' new \<noteq> None \<and>
            set_through_deprecated_arguments spec' new = Some nm)
       \<and> deprecation_of spec' = deprecation_of spec
       \<and> (\<forall>k. argument_idxs spec k \<noteq> None \<longrightarrow> argument_idxs spec' k \<noteq> None)"
proof -
  let ?arg = "Store (argument_storage_t tt T) nm (static_cast tt (argument_storage_t tt T) v)"
  from assms have s: "SetInitializedArg spec nm ?arg = Inr spec'"
    by (simp add: SetArg_def)
  have d: "deprecation_of spec' = deprecation_of spec"
    by (rule deprecation_of_cong [OF SetInitializedArg_schema [OF s]])
  have p: "deprecation_of spec nm = None \<longrightarrow>
            argument_idxs spec' nm \<noteq> None \<and> 
            set_through_deprecated_arguments spec' = set_through_deprecated_arguments spec"
    using SetInitializedArg_plain [OF _ s] by (auto simp: set_or_add_idx set_or_add_frame)
  have r: "\<forall>new. deprecation_of spec nm = Some (Some new) \<longrightarrow>
            argument_idxs spec' new \<noteq> None \<and>
            set_through_deprecated_arguments spec' new = Some nm"
    using SetInitializedArg_renamed [OF _ s] by (auto simp: set_or_add_idx)
  have m: "\<forall>k. argument_idxs spec k \<noteq> None \<longrightarrow> argument_idxs spec' k \<noteq> None"
  proof (cases "deprecation_of spec nm")
    case None
    with SetInitializedArg_plain [OF _ s] show ?thesis by (auto simp: set_or_add_idx_mono)
  next
    case (Some a)
    show ?thesis
    proof (cases a)
      case None
      with Some s show ?thesis by (simp add: SetInitializedArg_def)
    next
      case (Some new)
      with \<open>deprecation_of spec nm = Some a\<close> SetInitializedArg_renamed [OF _ s, of new]
      show ?thesis using set_or_add_idx_mono by fastforce
    qed
  qed
  from d p r m show ?thesis by blast
qed

text \<open>
  Claim C6. For every OpSpec, adding an argument under a name that is already present
  fails with the conflicting-specification error at the second call and is not silently
  resolved: \<^verbatim>\<open>AddArg\<close> on a name that already has a literal; \<^verbatim>\<open>AddArg\<close> or
  \<^verbatim>\<open>SetArg\<close> through a deprecated alias whose target name is already set; and \<^verbatim>\<open>AddArg\<close>
  or \<^verbatim>\<open>SetArg\<close> on a name that was already set through its deprecated alias. The same
  is stated for two calls in a row: a second \<^verbatim>\<open>AddArg\<close> of the same name (unless the
  name is an alias that says removed, which is dropped each time), the alias first and
  its target second, and the target first and its alias second.
\<close>

theorem AddArg_conflicting_specification:
  "(argument_idxs spec nm \<noteq> None \<longrightarrow>
      AddArg tt T spec nm v = Inl (ConflictingSpecification nm))
   \<and> (deprecation_of spec old = Some (Some new) \<and> argument_idxs spec new \<noteq> None \<longrightarrow>
        SetArg tt T spec old v = Inl (ConflictingSpecification new)
        \<and> (\<exists>n. AddArg tt T spec old v = Inl (ConflictingSpecification n)))
   \<and> (set_through_deprecated_arguments spec nm \<noteq> None \<longrightarrow>
        AddArg tt T spec nm v = Inl (ConflictingSpecification nm)
        \<and> (deprecation_of spec nm = None \<longrightarrow>
             SetArg tt T spec nm v = Inl (ConflictingSpecification nm)))
   \<and> ((AddArg tt T spec nm v = Inr spec' \<or> SetArg tt T spec nm v = Inr spec')
        \<and> deprecation_of spec nm \<noteq> Some None \<longrightarrow>
        (\<exists>n. AddArg tt T' spec' nm v' = Inl (ConflictingSpecification n)))
   \<and> ((AddArg tt T spec old v = Inr spec' \<or> SetArg tt T spec old v = Inr spec')
        \<and> deprecation_of spec old = Some (Some new) \<longrightarrow>
        AddArg tt T' spec' new v' = Inl (ConflictingSpecification new)
        \<and> (deprecation_of spec new = None \<longrightarrow>
             SetArg tt T' spec' new v' = Inl (ConflictingSpecification new)))
   \<and> ((AddArg tt T spec new v = Inr spec' \<or> SetArg tt T spec new v = Inr spec')
        \<and> deprecation_of spec new = None \<and> deprecation_of spec old = Some (Some new) \<longrightarrow>
        SetArg tt T' spec' old v' = Inl (ConflictingSpecification new)
        \<and> (\<exists>n. AddArg tt T' spec' old v' = Inl (ConflictingSpecification n)))"
proof (intro conjI impI; (elim conjE)?)
  assume "argument_idxs spec nm \<noteq> None"
  then show "AddArg tt T spec nm v = Inl (ConflictingSpecification nm)"
    by (rule AddArg_present)
next
  assume "deprecation_of spec old = Some (Some new)" "argument_idxs spec new \<noteq> None"
  then show "SetArg tt T spec old v = Inl (ConflictingSpecification new)"
    by (rule SetArg_alias_of_present)
next
  assume "deprecation_of spec old = Some (Some new)" "argument_idxs spec new \<noteq> None"
  then show "\<exists>n. AddArg tt T spec old v = Inl (ConflictingSpecification n)"
    by (rule AddArg_alias_of_present)
next
  assume "set_through_deprecated_arguments spec nm \<noteq> None"
  then show "AddArg tt T spec nm v = Inl (ConflictingSpecification nm)"
    by (rule AddArg_aliased)
next
  assume "set_through_deprecated_arguments spec nm \<noteq> None" "deprecation_of spec nm = None"
  then show "SetArg tt T spec nm v = Inl (ConflictingSpecification nm)"
    by (rule SetArg_aliased)
next
  assume a: "AddArg tt T spec nm v = Inr spec' \<or> SetArg tt T spec nm v = Inr spec'"
    and d: "deprecation_of spec nm \<noteq> Some None"
  from a have s: "SetArg tt T spec nm v = Inr spec'"
    by (auto dest: AddArg_Inr_SetArg)
  note r = SetArg_registers [OF s]
  show "\<exists>n. AddArg tt T' spec' nm v' = Inl (ConflictingSpecification n)"
  proof (cases "deprecation_of spec nm")
    case None
    with r have "argument_idxs spec' nm \<noteq> None" by simp
    then have "AddArg tt T' spec' nm v' = Inl (ConflictingSpecification nm)"
      by (rule AddArg_present)
    then show ?thesis ..
  next
    case (Some a)
    with d obtain new where n: "deprecation_of spec nm = Some (Some new)" by (cases a) auto
    with r have "deprecation_of spec' nm = Some (Some new)" "argument_idxs spec' new \<noteq> None"
      by simp_all
    then show ?thesis by (rule AddArg_alias_of_present)
  qed
next
  assume a: "AddArg tt T spec old v = Inr spec' \<or> SetArg tt T spec old v = Inr spec'"
    and d: "deprecation_of spec old = Some (Some new)"
  from a have s: "SetArg tt T spec old v = Inr spec'"
    by (auto dest: AddArg_Inr_SetArg)
  from SetArg_registers [OF s] d
  have "set_through_deprecated_arguments spec' new \<noteq> None" by simp
  then show "AddArg tt T' spec' new v' = Inl (ConflictingSpecification new)"
    by (rule AddArg_aliased)
next
  assume a: "AddArg tt T spec old v = Inr spec' \<or> SetArg tt T spec old v = Inr spec'"
    and d: "deprecation_of spec old = Some (Some new)"
    and n: "deprecation_of spec new = None"
  from a have s: "SetArg tt T spec old v = Inr spec'"
    by (auto dest: AddArg_Inr_SetArg)
  from SetArg_registers [OF s] d n
  have "set_through_deprecated_arguments spec' new \<noteq> None" "deprecation_of spec' new = None"
    by simp_all
  then show "SetArg tt T' spec' new v' = Inl (ConflictingSpecification new)"
    by (rule SetArg_aliased)
next
  assume a: "AddArg tt T spec new v = Inr spec' \<or> SetArg tt T spec new v = Inr spec'"
    and n: "deprecation_of spec new = None"
    and d: "deprecation_of spec old = Some (Some new)"
  from a have s: "SetArg tt T spec new v = Inr spec'"
    by (auto dest: AddArg_Inr_SetArg)
  from SetArg_registers [OF s] d n
  have *: "deprecation_of spec' old = Some (Some new)" "argument_idxs spec' new \<noteq> None"
    by simp_all
  then show "SetArg tt T' spec' old v' = Inl (ConflictingSpecification new)"
    by (rule SetArg_alias_of_present)
next
  assume a: "AddArg tt T spec new v = Inr spec' \<or> SetArg tt T spec new v = Inr spec'"
    and n: "deprecation_of spec new = None"
    and d: "deprecation_of spec old = Some (Some new)"
  from a have s: "SetArg tt T spec new v = Inr spec'"
    by (auto dest: AddArg_Inr_SetArg)
  from SetArg_registers [OF s] d n
  have *: "deprecation_of spec' old = Some (Some new)" "argument_idxs spec' new \<noteq> None"
    by simp_all
  then show "\<exists>n. AddArg tt T' spec' old v' = Inl (ConflictingSpecification n)"
    by (rule AddArg_alias_of_present)
qed


theorem AddArg_conflicting_specification_witness:
  "AddArg ex_types ''int'' ex_literal_spec ''fill'' 1 = Inl (ConflictingSpecification ''fill'')
   \<and> SetArg ex_types ''float'' ex_angle_spec ''rot'' 15 = Inl (ConflictingSpecification ''angle'')
   \<and> AddArg ex_types ''float'' ex_rot_spec ''angle'' 30 = Inl (ConflictingSpecification ''angle'')"
proof -
  note t = AddArg_conflicting_specification [where tt = ex_types and v = 15 and v' = 30
      and T = "''float''" and T' = "''float''" and old = "''rot''" and new = "''angle''"]
  have d: "deprecation_of ex_spec ''rot'' = Some (Some ''angle'')"
    "deprecation_of ex_angle_spec ''rot'' = Some (Some ''angle'')"
    by (simp_all add: deprecation_of_def ex_angle_spec_def ex_spec_facts ex_schema_def)
  have s: "SetArg ex_types ''float'' ex_spec ''rot'' 15 = Inr ex_rot_spec"
    by (simp add: SetArg_def SetInitializedArg_def d set_or_add_def ex_spec_facts Store_def
        ex_rot_spec_def ex_types_def)
      (simp add: ex_spec_def OpSpec_named_def SetSchema_def OpSpec_default_def)
  have w1: "AddArg ex_types ''int'' ex_literal_spec ''fill'' 1
      = Inl (ConflictingSpecification ''fill'')"
    using AddArg_conflicting_specification [where tt = ex_types and v = 1 and v' = 1
        and T = "''int''" and T' = "''int''" and old = "''rot''" and new = "''angle''"
        and spec = ex_literal_spec and spec' = ex_literal_spec and nm = "''fill''"]
    by (simp add: ex_literal_facts)
  have w2: "SetArg ex_types ''float'' ex_angle_spec ''rot'' 15
      = Inl (ConflictingSpecification ''angle'')"
    using t [where spec = ex_angle_spec and spec' = ex_angle_spec and nm = "''rot''"] d
    by (simp add: ex_angle_spec_def)
  have w3: "AddArg ex_types ''float'' ex_rot_spec ''angle'' 30
      = Inl (ConflictingSpecification ''angle'')"
    using t [where spec = ex_spec and spec' = ex_rot_spec and nm = "''rot''"] d s
    by simp
  from w1 w2 w3 show ?thesis by simp
qed

subsection \<open>Argument inputs are the last inputs\<close>








lemma AddInput_after_argument_input:
  "AddInput ex_tensor_spec ''late'' ''cpu'' True = Inl (RegularInputAfterArgumentInput ''late'')"
  by (simp add: AddInput_def NumArgumentInput_def ex_tensor_spec_def)




subsection \<open>Opening a file stream\<close>

text \<open>
  Claim C8. Constructing a file stream on a path that cannot be opened fails with a
  construction error whose message names both the path and the text of the underlying
  OS error ("Could not open file <path>: <strerror(errno)>"), and the constructor fails
  in no other way; on success the stream keeps the path and holds the open handle.
\<close>

theorem StdFileStream_ctor_result:
  "(fopen os p ''rb'' = Inl errno \<longrightarrow>
      StdFileStream_ctor os p = Inl (''Could not open file '' @ p @ '': '' @ strerror os errno))
   \<and> (fopen os p ''rb'' = Inr f \<longrightarrow>
      StdFileStream_ctor os p = Inr \<lparr>path = p, fp = Some f\<rparr>)
   \<and> (StdFileStream_ctor os p = Inl msg \<longrightarrow>
      (\<exists>errno. fopen os p ''rb'' = Inl errno \<and>
         msg = ''Could not open file '' @ p @ '': '' @ strerror os errno))
   \<and> (StdFileStream_ctor os p = Inr s \<longrightarrow> path s = p \<and> fp s \<noteq> None)"
  by (auto simp: StdFileStream_ctor_def split: sum.splits)

theorem StdFileStream_ctor_result_witness:
  "StdFileStream_ctor ex_clib ''/data/b.jpg'' =
     Inl ''Could not open file /data/b.jpg: No such file or directory''
   \<and> StdFileStream_ctor ex_clib ''/data/a.jpg'' = Inr \<lparr>path = ''/data/a.jpg'', fp = Some 3\<rparr>"
  using StdFileStream_ctor_result [of ex_clib "''/data/b.jpg''" 2 3 "[]" "\<lparr>path = [], fp = None\<rparr>"]
    StdFileStream_ctor_result [of ex_clib "''/data/a.jpg''" 2 3 "[]" "\<lparr>path = [], fp = None\<rparr>"]
  by (simp add: ex_clib_def)

subsection \<open>Thresholds of the decode backend selection\<close>





end
